theory Spec2Isabelle
  imports Complex_Main
begin

section \<open>PPO with a clipped surrogate objective (PPO\_c.py)\<close>

text \<open>
  The development embeds \<^verbatim>\<open>src/PPO_c.py\<close>: the trajectory buffer \<^verbatim>\<open>Memory\<close>, the
  policy \<^verbatim>\<open>ActorCritic\<close> and the optimiser \<^verbatim>\<open>PPO\<close>. Python floats and tensor entries
  are modelled as real numbers; rounding, and overflow inside an arithmetic operation, are
  not modelled. Where the source produces a value that is not a number, it is written out
  as \<open>None\<close>: the mean of an empty tensor, the unbiased standard deviation of a tensor with
  fewer than two entries, a network output computed from weights that are NaN, and the
  returns of line 114 when one of them does not fit a float32.
\<close>

subsection \<open>Monte-Carlo returns (lines 104--111 of update)\<close>

text \<open>
  \<^verbatim>\<open>
  Returns = []
  disc_reward = 0
  for reward, is_terminal in zip(reversed(memory.rewards), reversed(memory.is_terminals)):
      if is_terminal:
          disc_reward = 0
      disc_reward = reward + self.gamma * disc_reward
      Returns.insert(0, disc_reward)
  \<close>
  The loop runs over the zipped reversed sequences; \<open>returns_loop\<close> carries the two
  loop variables \<open>disc_reward\<close> and \<open>Returns\<close>.
\<close>

fun returns_loop :: "real \<Rightarrow> (real \<times> bool) list \<Rightarrow> real \<Rightarrow> real list \<Rightarrow> real list" where
  "returns_loop gamma [] disc_reward Returns = Returns"
| "returns_loop gamma ((reward, is_terminal) # rest) disc_reward Returns =
     (let disc_reward = (if is_terminal then 0 else disc_reward);
          disc_reward = reward + gamma * disc_reward
      in returns_loop gamma rest disc_reward (disc_reward # Returns))"

definition mc_returns :: "real \<Rightarrow> real list \<Rightarrow> bool list \<Rightarrow> real list" where
  "mc_returns gamma rewards is_terminals =
     returns_loop gamma (zip (rev rewards) (rev is_terminals)) 0 []"

subsection \<open>Clipped surrogate (lines 131--132 of update)\<close>

text \<open>\<^verbatim>\<open>torch.clamp(x, lo, hi)\<close> is \<open>min (max x lo) hi\<close>; when \<open>lo > hi\<close> it yields \<open>hi\<close>.\<close>

definition clamp :: "real \<Rightarrow> real \<Rightarrow> real \<Rightarrow> real" where
  "clamp x lo hi = min (max x lo) hi"

text \<open>
  One entry of \<^verbatim>\<open>L_CPI = ratios * advantages\<close> and of
  \<^verbatim>\<open>L_CLIP = torch.min(L_CPI, torch.clamp(ratios, 1-eps_clip, 1+eps_clip) * advantages)\<close>.
\<close>

definition L_CPI :: "real \<Rightarrow> real \<Rightarrow> real" where
  "L_CPI ratio advantage = ratio * advantage"

definition L_CLIP :: "real \<Rightarrow> real \<Rightarrow> real \<Rightarrow> real" where
  "L_CLIP eps_clip ratio advantage =
     min (L_CPI ratio advantage) (clamp ratio (1 - eps_clip) (1 + eps_clip) * advantage)"

subsection \<open>Exceptions and tensors\<close>

text \<open>
  The exceptions that the source and the library calls it makes can raise. \<open>ImportError\<close>
  is the one \<^verbatim>\<open>raise\<close> of the source (\<^verbatim>\<open>ActorCritic.forward\<close>); \<open>NameError\<close> is Python's
  error for reading a local variable that was never assigned (its subclass
  \<^verbatim>\<open>UnboundLocalError\<close>); \<open>RuntimeError\<close> is what
  torch raises for an empty \<^verbatim>\<open>torch.stack\<close>, for tensors that do not broadcast, for a
  negative size and for an input that does not fit a layer; \<open>ValueError\<close> is what it raises
  for arguments or values that a distribution refuses and for optimiser arguments out of
  range.
\<close>

datatype error = RuntimeError | NameError | ImportError | ValueError

text \<open>
  A one-dimensional batch tensor is a list with one entry per step. An entry that may be
  NaN is a \<open>real option\<close>; arithmetic on such entries propagates \<open>None\<close>.
\<close>

definition lift2 :: "(real \<Rightarrow> real \<Rightarrow> real) \<Rightarrow> real option \<Rightarrow> real option \<Rightarrow> real option" where
  "lift2 f a b = (case a of None \<Rightarrow> None | Some x \<Rightarrow> (case b of None \<Rightarrow> None | Some y \<Rightarrow> Some (f x y)))"

text \<open>
  Elementwise operations on two batch tensors follow torch's broadcasting on the batch
  dimension: equal lengths combine entry by entry, a tensor of one entry is repeated, any
  other pair of lengths raises.
\<close>

definition broadcast :: "('a \<Rightarrow> 'b \<Rightarrow> 'c) \<Rightarrow> 'a list \<Rightarrow> 'b list \<Rightarrow> error + 'c list" where
  "broadcast f xs ys =
     (if length xs = length ys then Inr (map2 f xs ys)
      else if length xs = 1 then Inr (map (f (hd xs)) ys)
      else if length ys = 1 then Inr (map (\<lambda>x. f x (hd ys)) xs)
      else Inl RuntimeError)"

text \<open>
  \<^verbatim>\<open>torch.stack\<close> of a Python list of tensors, followed by \<^verbatim>\<open>torch.squeeze(_, 1)\<close>: the
  list must be non-empty and all its tensors must have one shape. A stored state or action
  is the row of its \<open>(1, dim)\<close> tensor, a stored log-probability is the entry of its \<open>(1,)\<close>
  tensor.
\<close>

definition stack :: "real list list \<Rightarrow> error + real list list" where
  "stack ts =
     (if ts = [] then Inl RuntimeError
      else if list_all (\<lambda>t. length t = length (hd ts)) ts then Inr ts
      else Inl RuntimeError)"

definition stack_scalars :: "real list \<Rightarrow> error + real list" where
  "stack_scalars ts = (if ts = [] then Inl RuntimeError else Inr ts)"

text \<open>
  A library call on a batch works row by row; the first row it rejects raises.
\<close>

fun mapE :: "('a \<Rightarrow> error + 'b) \<Rightarrow> 'a list \<Rightarrow> error + 'b list" where
  "mapE f [] = Inr []"
| "mapE f (x # xs) =
     (case f x of
        Inl e \<Rightarrow> Inl e
      | Inr y \<Rightarrow> (case mapE f xs of Inl e \<Rightarrow> Inl e | Inr ys \<Rightarrow> Inr (y # ys)))"

text \<open>
  A tensor that \<^verbatim>\<open>act\<close> hands back: its entries, and whether it is attached to a
  computational graph. \<^verbatim>\<open>Tensor.detach()\<close> keeps the entries and drops the graph.
\<close>

record tensor =
  data :: "real list"
  requires_grad :: bool

definition detach :: "tensor \<Rightarrow> tensor" where
  "detach t = t\<lparr>requires_grad := False\<rparr>"

text \<open>The largest finite float32.\<close>

definition float32_max :: real where
  "float32_max = (2 - 1 / 2 ^ 23) * 2 ^ 127"

text \<open>
  \<^verbatim>\<open>Tensor.mean()\<close> and \<^verbatim>\<open>Tensor.std()\<close> (unbiased, divisor \<open>n - 1\<close>). Neither raises:
  on too few entries the result is NaN.
\<close>

definition tensor_mean :: "real list \<Rightarrow> real option" where
  "tensor_mean xs = (if xs = [] then None else Some (sum_list xs / real (length xs)))"

definition tensor_std :: "real list \<Rightarrow> real option" where
  "tensor_std xs =
     (if length xs \<le> 1 then None
      else Some (sqrt (sum_list (map (\<lambda>x. (x - sum_list xs / real (length xs))\<^sup>2) xs)
                        / real (length xs - 1))))"

text \<open>The mean of a tensor whose entries may be NaN.\<close>

definition nan_mean :: "real option list \<Rightarrow> real option" where
  "nan_mean xs = (case those xs of None \<Rightarrow> None | Some ys \<Rightarrow> tensor_mean ys)"

subsection \<open>Normalising the returns (line 115 of update)\<close>

text \<open>
  \<^verbatim>\<open>
  Returns = torch.tensor(Returns).to(device).float()
  Returns = (Returns - Returns.mean()) / (Returns.std() + 1e-5)
  \<close>
  \<open>cast\<close> is the library's conversion of a Python float to a float32 entry: the rounded
  value, or \<open>None\<close> when the value is too large for a float32 and becomes infinite. A tensor
  with an infinite entry has an infinite or NaN mean, so that entry's deviation and the
  standard deviation are NaN, and with them every entry of the quotient.
\<close>

definition normalize_returns :: "(real \<Rightarrow> real option) \<Rightarrow> real list \<Rightarrow> real option list" where
  "normalize_returns cast Returns =
     (case those (map cast Returns) of
        None \<Rightarrow> map (\<lambda>R. None) Returns
      | Some Returns \<Rightarrow>
          map (\<lambda>R. lift2 (/) (lift2 (-) (Some R) (tensor_mean Returns))
                             (lift2 (+) (tensor_std Returns) (Some (1 / 100000)))) Returns)"


subsection \<open>The loss (lines 130--137 of update)\<close>

text \<open>
  \<^verbatim>\<open>nn.MSELoss()\<close> with the default mean reduction: the mean of the squared differences
  of the two broadcast tensors.
\<close>

definition MseLoss :: "real list \<Rightarrow> real option list \<Rightarrow> error + real option" where
  "MseLoss input target =
     (case broadcast (\<lambda>v R. map_option (\<lambda>R. (v - R)\<^sup>2) R) input target of
        Inl e \<Rightarrow> Inl e
      | Inr sq \<Rightarrow> Inr (nan_mean sq))"

text \<open>
  \<^verbatim>\<open>
  advantages = Returns - state_values.detach()
  L_CPI = ratios * advantages
  L_CLIP = torch.min(L_CPI, torch.clamp(ratios, 1-self.eps_clip, 1+self.eps_clip) * advantages)
  loss = -L_CLIP + 0.5 * self.MseLoss(state_values, Returns) - 0.01 * dist_entropy
  \<close>
  \<open>detached\<close> is the value of \<^verbatim>\<open>state_values.detach()\<close>. The two products of line 131 and
  132 broadcast the same pair of tensors, so their entrywise minimum is taken in the same
  pass. The mean-squared error is a scalar, added to every entry of the loss vector.
\<close>

definition loss_vector ::
  "real \<Rightarrow> real option list \<Rightarrow> real list \<Rightarrow> real list \<Rightarrow> real list \<Rightarrow> real list
     \<Rightarrow> error + real option list" where
  "loss_vector eps_clip Returns ratios state_values dist_entropy detached =
     (case broadcast (\<lambda>R v. map_option (\<lambda>R. R - v) R) Returns detached of
        Inl e \<Rightarrow> Inl e
      | Inr advantages \<Rightarrow>
     (case broadcast (\<lambda>r A. map_option (L_CLIP eps_clip r) A) ratios advantages of
        Inl e \<Rightarrow> Inl e
      | Inr L_CLIPs \<Rightarrow>
     (case MseLoss state_values Returns of
        Inl e \<Rightarrow> Inl e
      | Inr mse \<Rightarrow>
     (case broadcast (\<lambda>l e. lift2 (\<lambda>l m. - l + 0.5 * m - 0.01 * e) l mse) L_CLIPs dist_entropy of
        Inl e \<Rightarrow> Inl e
      | Inr loss \<Rightarrow> Inr loss))))"

text \<open>The scalar \<^verbatim>\<open>loss.mean()\<close> of line 137.\<close>

definition surrogate_loss ::
  "real \<Rightarrow> real option list \<Rightarrow> real list \<Rightarrow> real list \<Rightarrow> real list \<Rightarrow> real list
     \<Rightarrow> error + real option" where
  "surrogate_loss eps_clip Returns ratios state_values dist_entropy detached =
     (case loss_vector eps_clip Returns ratios state_values dist_entropy detached of
        Inl e \<Rightarrow> Inl e
      | Inr loss \<Rightarrow> Inr (nan_mean loss))"

text \<open>
  The per-step loss as the specification words it, and its batch average:
  per-step loss = -surrogate + 0.5 * squared\_error(value\_estimate, normalized\_return)
  - 0.01 * entropy.
\<close>

definition spec_step_loss :: "real \<Rightarrow> real \<Rightarrow> real \<Rightarrow> real \<Rightarrow> real" where
  "spec_step_loss surrogate value_estimate normalized_return entropy =
     - surrogate + 0.5 * (value_estimate - normalized_return)\<^sup>2 - 0.01 * entropy"

definition spec_batch_loss :: "real list \<Rightarrow> real list \<Rightarrow> real list \<Rightarrow> real list \<Rightarrow> real" where
  "spec_batch_loss surrogates value_estimates normalized_returns entropies =
     sum_list (map (\<lambda>i. spec_step_loss (surrogates ! i) (value_estimates ! i)
                                        (normalized_returns ! i) (entropies ! i))
                   [0..<length surrogates])
       / real (length surrogates)"

subsection \<open>The trajectory buffer (class Memory)\<close>

record Memory =
  actions :: "real list list"
  states :: "real list list"
  logprobs :: "real list"
  rewards :: "real list"
  is_terminals :: "bool list"

definition Memory_init :: Memory where
  "Memory_init = \<lparr>actions = [], states = [], logprobs = [], rewards = [], is_terminals = []\<rparr>"

definition clear_memory :: "Memory \<Rightarrow> Memory" where
  "clear_memory self =
     self\<lparr>actions := [], states := [], logprobs := [], rewards := [], is_terminals := []\<rparr>"

subsection \<open>The numeric library\<close>

text \<open>
  The networks, the Gaussian distribution, the float32 conversion and the Adam optimiser
  belong to torch, not to this repository; they are parameters of the model. \<open>'p\<close> is a
  \<^verbatim>\<open>state_dict\<close> (the weights of the actor and the critic), \<open>'o\<close> the state of an
  optimiser. Each call that torch can refuse returns an error or a value.
  \<^item> \<open>float32 x\<close>: the float32 entry that \<^verbatim>\<open>torch.tensor\<close> makes of the Python float \<open>x\<close>
    (\<open>None\<close> when it is infinite);
  \<^item> \<open>actor_net w s\<close>: \<^verbatim>\<open>self.actor(state)\<close> on one state row, under weights \<open>w\<close>; it
    raises when the state does not fit the first layer, and its entries are NaN (\<open>None\<close>)
    when the weights are;
  \<^item> \<open>critic_net w s\<close>: \<^verbatim>\<open>self.critic(state)\<close> on one state row;
  \<^item> \<open>MultivariateNormal loc var\<close>: the constructor
    \<^verbatim>\<open>MultivariateNormal(loc, diag(var))\<close>, which validates its arguments and raises on a
    mean that is not a number or a covariance that is not positive definite (a variance
    that is not positive); the distribution it returns is given by its mean;
  \<^item> \<open>mvn_sample mean var noise\<close>: \<^verbatim>\<open>sample()\<close> of that distribution, where \<open>noise\<close> is
    the draw of the random number generator;
  \<^item> \<open>mvn_log_prob mean var a\<close>: \<^verbatim>\<open>log_prob(a)\<close>, which raises on a value of the wrong
    shape; \<open>mvn_entropy mean var\<close>: \<^verbatim>\<open>entropy()\<close>;
  \<^item> \<open>adam_init lr betas\<close>: \<^verbatim>\<open>torch.optim.Adam(params, lr=lr, betas=betas)\<close>, which
    raises on arguments out of range;
  \<^item> \<open>adam_step opt w objective\<close>: \<^verbatim>\<open>zero_grad()\<close>, \<^verbatim>\<open>objective.backward()\<close> and
    \<^verbatim>\<open>step()\<close>; the objective is the scalar loss as a function of the weights (its
    computational graph), \<open>None\<close> where it is NaN.
\<close>

record ('p, 'o) torch =
  float32 :: "real \<Rightarrow> real option"
  actor_net :: "'p \<Rightarrow> real list \<Rightarrow> error + real option list"
  critic_net :: "'p \<Rightarrow> real list \<Rightarrow> error + real"
  MultivariateNormal :: "real option list \<Rightarrow> real list \<Rightarrow> error + real list"
  mvn_sample :: "real list \<Rightarrow> real list \<Rightarrow> real list \<Rightarrow> real list"
  mvn_log_prob :: "real list \<Rightarrow> real list \<Rightarrow> real list \<Rightarrow> error + real"
  mvn_entropy :: "real list \<Rightarrow> real list \<Rightarrow> real"
  adam_init :: "real \<Rightarrow> real \<times> real \<Rightarrow> error + 'o"
  adam_step :: "'o \<Rightarrow> 'p \<Rightarrow> ('p \<Rightarrow> real option) \<Rightarrow> 'o \<times> 'p"

subsection \<open>The policy (class ActorCritic)\<close>

text \<open>
  \<open>params\<close> holds the weights of \<^verbatim>\<open>self.actor\<close> and \<^verbatim>\<open>self.critic\<close>; \<open>action_var\<close> is the
  plain attribute \<^verbatim>\<open>self.action_var\<close>, which is not part of the \<^verbatim>\<open>state_dict\<close>.
\<close>

record 'p ActorCritic =
  params :: 'p
  action_var :: "real list"

text \<open>
  \<^verbatim>\<open>
  self.actor = nn.Sequential(nn.Linear(state_dim, 64), ...)
  self.critic = nn.Sequential(nn.Linear(state_dim, 64), ...)
  self.action_var = torch.full((action_dim,), action_std*action_std).to(device)
  \<close>
  \<open>w\<close> stands for the weights drawn by the layers' initialisers. The only failure is
  torch's refusal of a negative size; \<open>action_std\<close> is not examined.
\<close>

definition ActorCritic_init :: "int \<Rightarrow> int \<Rightarrow> real \<Rightarrow> 'p \<Rightarrow> error + 'p ActorCritic" where
  "ActorCritic_init state_dim action_dim action_std w =
     (if state_dim < 0 then Inl RuntimeError
      else if action_dim < 0 then Inl RuntimeError
      else Inr \<lparr>params = w, action_var = replicate (nat action_dim) (action_std * action_std)\<rparr>)"

definition forward :: "'p ActorCritic \<Rightarrow> error + unit" where
  "forward self = Inl ImportError"

definition state_dict :: "'p ActorCritic \<Rightarrow> 'p" where
  "state_dict self = params self"

definition load_state_dict :: "'p ActorCritic \<Rightarrow> 'p \<Rightarrow> 'p ActorCritic" where
  "load_state_dict self sd = self\<lparr>params := sd\<rparr>"

text \<open>
  \<^verbatim>\<open>
  def act(self, state, memory):
      action_mean = self.actor(state)
      cov_mat = torch.diag(self.action_var).to(device)
      distribution = MultivariateNormal(action_mean, cov_mat)
      action = distribution.sample()
      action_logprob = distribution.log_prob(action)
      memory.states.append(state)
      memory.actions.append(action)
      memory.logprobs.append(action_logprob)
      return action.detach()
  \<close>
  The diagonal covariance matrix is represented by its diagonal. The result is the returned
  tensor, or the exception that a library call raised, and the buffer as the call leaves
  it: the calls that can raise all stand before the three appends. \<^verbatim>\<open>sample()\<close> draws
  outside the computational graph.
\<close>

definition act ::
  "('p, 'o) torch \<Rightarrow> 'p ActorCritic \<Rightarrow> real list \<Rightarrow> Memory \<Rightarrow> real list
     \<Rightarrow> (error + tensor) \<times> Memory" where
  "act T self state memory noise =
     (case actor_net T (params self) state of
        Inl e \<Rightarrow> (Inl e, memory)
      | Inr action_mean \<Rightarrow>
     (let cov_mat = action_var self
      in case MultivariateNormal T action_mean cov_mat of
        Inl e \<Rightarrow> (Inl e, memory)
      | Inr distribution \<Rightarrow>
     (let action = \<lparr>data = mvn_sample T distribution cov_mat noise, requires_grad = False\<rparr>
      in case mvn_log_prob T distribution cov_mat (data action) of
        Inl e \<Rightarrow> (Inl e, memory)
      | Inr action_logprob \<Rightarrow>
     (let memory = memory\<lparr>states := states memory @ [state]\<rparr>;
          memory = memory\<lparr>actions := actions memory @ [data action]\<rparr>;
          memory = memory\<lparr>logprobs := logprobs memory @ [action_logprob]\<rparr>
      in (Inr (detach action), memory)))))"

text \<open>
  \<^verbatim>\<open>
  def evaluate(self, state, action):
      action_mean = self.actor(state)
      action_var = self.action_var.expand_as(action_mean)
      cov_mat = torch.diag_embed(action_var).to(device)
      distribution = MultivariateNormal(action_mean, cov_mat)
      action_logprob = distribution.log_prob(action)
      dist_entropy = distribution.entropy()
      state_value = self.critic(state)
      return action_logprob, torch.squeeze(state_value), dist_entropy
  \<close>
  \<open>state\<close> and \<open>action\<close> are batches (one row per step). \<^verbatim>\<open>log_prob\<close> checks that the
  batch of actions broadcasts against the batch of distributions and raises \<open>ValueError\<close>
  when it does not.
\<close>

definition evaluate ::
  "('p, 'o) torch \<Rightarrow> 'p ActorCritic \<Rightarrow> real list list \<Rightarrow> real list list
     \<Rightarrow> error + (real list \<times> real list \<times> real list)" where
  "evaluate T self state action =
     (case mapE (actor_net T (params self)) state of
        Inl e \<Rightarrow> Inl e
      | Inr action_mean \<Rightarrow>
     (let cov_mat = action_var self
      in case mapE (\<lambda>m. MultivariateNormal T m cov_mat) action_mean of
        Inl e \<Rightarrow> Inl e
      | Inr distribution \<Rightarrow>
     (case broadcast Pair distribution action of
        Inl e \<Rightarrow> Inl ValueError
      | Inr pairs \<Rightarrow>
     (case mapE (\<lambda>(m, a). mvn_log_prob T m cov_mat a) pairs of
        Inl e \<Rightarrow> Inl e
      | Inr action_logprob \<Rightarrow>
     (let dist_entropy = map (\<lambda>m. mvn_entropy T m cov_mat) distribution
      in case mapE (critic_net T (params self)) state of
        Inl e \<Rightarrow> Inl e
      | Inr state_value \<Rightarrow> Inr (action_logprob, state_value, dist_entropy))))))"

subsection \<open>The optimiser (class PPO)\<close>

record ('p, 'o) PPO =
  lr :: real
  betas :: "real \<times> real"
  gamma :: real
  eps_clip :: real
  K_epochs :: int
  policy :: "'p ActorCritic"
  optimizer :: 'o
  policy_old :: "'p ActorCritic"

text \<open>
  \<^verbatim>\<open>
  self.policy = ActorCritic(state_dim, action_dim, action_std).to(device)
  self.optimizer = torch.optim.Adam(self.policy.parameters(), lr=lr, betas=betas)
  self.policy_old = ActorCritic(state_dim, action_dim, action_std).to(device)
  self.policy_old.load_state_dict(self.policy.state_dict())
  \<close>
  \<open>w\<close> and \<open>w_old\<close> are the weights drawn for the two networks.
\<close>

definition PPO_init ::
  "('p, 'o) torch \<Rightarrow> int \<Rightarrow> int \<Rightarrow> real \<Rightarrow> real \<Rightarrow> real \<times> real \<Rightarrow> real \<Rightarrow> int \<Rightarrow> real \<Rightarrow> 'p \<Rightarrow> 'p
     \<Rightarrow> error + ('p, 'o) PPO" where
  "PPO_init T state_dim action_dim action_std lr0 betas0 gamma0 K_epochs0 eps_clip0 w w_old =
     (case ActorCritic_init state_dim action_dim action_std w of
        Inl e \<Rightarrow> Inl e
      | Inr policy0 \<Rightarrow>
     (case adam_init T lr0 betas0 of
        Inl e \<Rightarrow> Inl e
      | Inr optimizer0 \<Rightarrow>
     (case ActorCritic_init state_dim action_dim action_std w_old of
        Inl e \<Rightarrow> Inl e
      | Inr policy_old0 \<Rightarrow>
          Inr \<lparr>lr = lr0, betas = betas0, gamma = gamma0, eps_clip = eps_clip0,
               K_epochs = K_epochs0, policy = policy0, optimizer = optimizer0,
               policy_old = load_state_dict policy_old0 (state_dict policy0)\<rparr>)))"

text \<open>
  \<^verbatim>\<open>
  def action_selection(self, state, memory):
      state = torch.FloatTensor(state.reshape(1, -1)).to(device)
      return self.policy_old.act(state, memory).cpu().data.numpy().flatten()
  \<close>
  The result is the returned array (the entries of the tensor that \<^verbatim>\<open>act\<close> returns) or
  the exception raised, and the optimiser object and the buffer as the call leaves them.
\<close>

definition action_selection ::
  "('p, 'o) torch \<Rightarrow> ('p, 'o) PPO \<Rightarrow> real list \<Rightarrow> Memory \<Rightarrow> real list
     \<Rightarrow> (error + real list) \<times> ('p, 'o) PPO \<times> Memory" where
  "action_selection T self state memory noise =
     (case act T (policy_old self) state memory noise of
        (Inl e, memory) \<Rightarrow> (Inl e, self, memory)
      | (Inr action, memory) \<Rightarrow> (Inr (data action), self, memory))"

subsection \<open>PPO.update\<close>

text \<open>
  The method calls that update makes, in the order it makes them: the reductions
  \<^verbatim>\<open>.mean()\<close> and \<^verbatim>\<open>.std()\<close> of lines 115 and 137 with the number of entries they
  reduce, each \<^verbatim>\<open>evaluate\<close> with its epoch, and \<^verbatim>\<open>zero_grad\<close>, \<^verbatim>\<open>backward\<close>,
  \<^verbatim>\<open>step\<close> and \<^verbatim>\<open>load_state_dict\<close> of lines 136--140. \<open>Backward j\<close> is the backward
  pass through the values that epoch \<open>j\<close> assigned.
\<close>

datatype call =
  TensorMean nat | TensorStd nat | Evaluate int | ZeroGrad | Backward int | OptimizerStep
  | LoadStateDict

text \<open>
  What a call of update leaves behind: the exception it raised, if any, the optimiser
  object and the buffer at that moment, and the library calls made.
\<close>

record ('p, 'o) outcome =
  exc :: "error option"
  ppo :: "('p, 'o) PPO"
  mem :: Memory
  trace :: "call list"

text \<open>
  The body of the epoch loop (lines 124 and 126):
  \<^verbatim>\<open>
  log_probs, state_values, dist_entropy = self.policy.evaluate(old_states, old_actions)
  ratios = torch.exp(log_probs - old_logprobs.detach()).float()
  \<close>
\<close>

definition epoch_body ::
  "('p, 'o) torch \<Rightarrow> 'p ActorCritic \<Rightarrow> real list list \<Rightarrow> real list list \<Rightarrow> real list
     \<Rightarrow> error + (real list \<times> real list \<times> real list \<times> real list)" where
  "epoch_body T pol old_states old_actions old_logprobs =
     (case evaluate T pol old_states old_actions of
        Inl e \<Rightarrow> Inl e
      | Inr (log_probs, state_values, dist_entropy) \<Rightarrow>
          (case broadcast (\<lambda>l old. exp (l - old)) log_probs old_logprobs of
             Inl e \<Rightarrow> Inl e
           | Inr ratios \<Rightarrow> Inr (log_probs, state_values, dist_entropy, ratios)))"

text \<open>
  \<^verbatim>\<open>for j in range(self.K_epochs):\<close> over the list of epochs. The loop variables are
  unassigned (\<open>None\<close>) until the first iteration; afterwards they hold the epoch \<open>j\<close> and the
  four tensors it assigned. The result is the exception raised, if any, the calls made and
  the loop variables.
\<close>

type_synonym bound = "int \<times> real list \<times> real list \<times> real list \<times> real list"

fun epochs ::
  "('p, 'o) torch \<Rightarrow> 'p ActorCritic \<Rightarrow> real list list \<Rightarrow> real list list \<Rightarrow> real list
     \<Rightarrow> int list \<Rightarrow> bound option \<Rightarrow> error option \<times> call list \<times> bound option" where
  "epochs T pol old_states old_actions old_logprobs [] vars = (None, [], vars)"
| "epochs T pol old_states old_actions old_logprobs (j # js) vars =
     (case epoch_body T pol old_states old_actions old_logprobs of
        Inl e \<Rightarrow> (Some e, [Evaluate j], vars)
      | Inr tensors \<Rightarrow>
          (case epochs T pol old_states old_actions old_logprobs js (Some (j, tensors)) of
             (e, calls, vars) \<Rightarrow> (e, Evaluate j # calls, vars)))"

text \<open>
  The scalar \<^verbatim>\<open>loss.mean()\<close> as a function of the weights of \<^verbatim>\<open>self.policy\<close>: the graph
  that \<^verbatim>\<open>backward()\<close> differentiates. The returns, the old log-probabilities and the
  detached value estimates are constants of the graph.
\<close>

definition loss_graph ::
  "('p, 'o) torch \<Rightarrow> 'p ActorCritic \<Rightarrow> real \<Rightarrow> real option list \<Rightarrow> real list list \<Rightarrow> real list list
     \<Rightarrow> real list \<Rightarrow> real list \<Rightarrow> 'p \<Rightarrow> real option" where
  "loss_graph T pol eps Returns old_states old_actions old_logprobs detached w =
     (case epoch_body T (pol\<lparr>params := w\<rparr>) old_states old_actions old_logprobs of
        Inl e \<Rightarrow> None
      | Inr (log_probs, state_values, dist_entropy, ratios) \<Rightarrow>
          (case surrogate_loss eps Returns ratios state_values dist_entropy detached of
             Inl e \<Rightarrow> None
           | Inr l \<Rightarrow> l))"

text \<open>
  \<^verbatim>\<open>
  def update(self, memory):
      Returns = [] ... (lines 104--111)
      Returns = torch.tensor(Returns).to(device).float()
      Returns = (Returns - Returns.mean()) / (Returns.std() + 1e-5)
      old_states = torch.squeeze(torch.stack(memory.states).to(device), 1).detach()
      old_actions = torch.squeeze(torch.stack(memory.actions).to(device), 1).detach()
      old_logprobs = torch.squeeze(torch.stack(memory.logprobs), 1).to(device).detach()
      for j in range(self.K_epochs):
          log_probs, state_values, dist_entropy = self.policy.evaluate(old_states, old_actions)
          ratios = torch.exp(log_probs - old_logprobs.detach()).float()
      advantages = Returns - state_values.detach()
      L_CPI = ratios * advantages
      L_CLIP = torch.min(L_CPI, torch.clamp(ratios, 1-self.eps_clip, 1+self.eps_clip) * advantages)
      loss = -L_CLIP + 0.5 * self.MseLoss(state_values, Returns) - 0.01 * dist_entropy
      self.optimizer.zero_grad()
      loss.mean().backward()
      self.optimizer.step()
      self.policy_old.load_state_dict(self.policy.state_dict())
  \<close>
  The surrogate loss, the backward pass and the optimiser step stand after the loop, as in
  the source. Reading \<^verbatim>\<open>state_values\<close> on line 130 raises \<open>NameError\<close> when the loop body
  never ran.
\<close>

definition raised :: "error \<Rightarrow> ('p, 'o) PPO \<Rightarrow> Memory \<Rightarrow> call list \<Rightarrow> ('p, 'o) outcome" where
  "raised e self memory calls = \<lparr>exc = Some e, ppo = self, mem = memory, trace = calls\<rparr>"

definition update :: "('p, 'o) torch \<Rightarrow> ('p, 'o) PPO \<Rightarrow> Memory \<Rightarrow> ('p, 'o) outcome" where
  "update T self memory =
     (let Returns = mc_returns (gamma self) (rewards memory) (is_terminals memory);
          calls1 = [TensorMean (length Returns), TensorStd (length Returns)];
          Returns = normalize_returns (float32 T) Returns
      in case stack (states memory) of
           Inl e \<Rightarrow> raised e self memory calls1
         | Inr old_states \<Rightarrow>
        (case stack (actions memory) of
           Inl e \<Rightarrow> raised e self memory calls1
         | Inr old_actions \<Rightarrow>
        (case stack_scalars (logprobs memory) of
           Inl e \<Rightarrow> raised e self memory calls1
         | Inr old_logprobs \<Rightarrow>
        (case epochs T (policy self) old_states old_actions old_logprobs
                [0 .. K_epochs self - 1] None of
           (Some e, calls2, vars) \<Rightarrow> raised e self memory (calls1 @ calls2)
         | (None, calls2, None) \<Rightarrow> raised NameError self memory (calls1 @ calls2)
         | (None, calls2, Some (j, log_probs, state_values, dist_entropy, ratios)) \<Rightarrow>
        (case loss_vector (eps_clip self) Returns ratios state_values dist_entropy
                state_values of
           Inl e \<Rightarrow> raised e self memory (calls1 @ calls2)
         | Inr loss \<Rightarrow>
             (let objective = loss_graph T (policy self) (eps_clip self) Returns
                                old_states old_actions old_logprobs state_values;
                  (optimizer1, w1) = adam_step T (optimizer self) (params (policy self)) objective;
                  self = self\<lparr>optimizer := optimizer1, policy := (policy self)\<lparr>params := w1\<rparr>\<rparr>;
                  self = self\<lparr>policy_old :=
                                load_state_dict (policy_old self) (state_dict (policy self))\<rparr>
              in \<lparr>exc = None, ppo = self, mem = memory,
                  trace = calls1 @ calls2 @
                    [ZeroGrad, TensorMean (length loss), Backward j, OptimizerStep,
                     LoadStateDict]\<rparr>))))))"

subsection \<open>The driver's use of update (lines 191--193 of main)\<close>

text \<open>
  \<^verbatim>\<open>
  ppo.update(memory)
  memory.clear_memory()
  \<close>
  \<^verbatim>\<open>clear_memory\<close> is reached only when update returned.
\<close>

definition update_and_clear :: "('p, 'o) torch \<Rightarrow> ('p, 'o) PPO \<Rightarrow> Memory \<Rightarrow> ('p, 'o) outcome" where
  "update_and_clear T self memory =
     (let r = update T self memory
      in case exc r of
           Some e \<Rightarrow> r
         | None \<Rightarrow> r\<lparr>mem := clear_memory (mem r)\<rparr>)"

subsection \<open>Well-formed buffers and a small instance of the library\<close>

text \<open>
  The buffer invariant: the five sequences have one length, and the stored states (and the
  stored actions) have one dimension each.
\<close>

definition well_formed :: "Memory \<Rightarrow> bool" where
  "well_formed memory \<longleftrightarrow>
     length (actions memory) = length (states memory) \<and>
     length (logprobs memory) = length (states memory) \<and>
     length (rewards memory) = length (states memory) \<and>
     length (is_terminals memory) = length (states memory) \<and>
     list_all (\<lambda>s. length s = length (hd (states memory))) (states memory) \<and>
     list_all (\<lambda>a. length a = length (hd (actions memory))) (actions memory)"

text \<open>
  An instance of the library parameters on which the model can be run: weights are one real
  number, states have two entries and actions one; the actor outputs the weight as the
  mean, the critic outputs it as the value, the distribution is refused when a variance is
  not positive, a sample is the mean plus the noise, and the optimiser counts its steps and
  moves the weight against the loss. The conversion to float32 keeps a value within range
  as it is.
\<close>

definition toy_torch :: "(real, nat) torch" where
  "toy_torch =
     \<lparr>float32 = (\<lambda>x. if \<bar>x\<bar> \<le> float32_max then Some x else None),
      actor_net = (\<lambda>w s. if length s = 2 then Inr [Some w] else Inl RuntimeError),
      critic_net = (\<lambda>w s. if length s = 2 then Inr w else Inl RuntimeError),
      MultivariateNormal = (\<lambda>loc var.
         if list_all (\<lambda>v. 0 < v) var
         then (case those loc of None \<Rightarrow> Inl ValueError | Some mean \<Rightarrow> Inr mean)
         else Inl ValueError),
      mvn_sample = (\<lambda>mean var noise. map2 (+) mean noise),
      mvn_log_prob = (\<lambda>mean var a.
         if length a = length mean
         then Inr (- sum_list (map2 (\<lambda>a m. (a - m)\<^sup>2) a mean))
         else Inl ValueError),
      mvn_entropy = (\<lambda>mean var. sum_list var),
      adam_init = (\<lambda>lr betas. if lr < 0 then Inl ValueError else Inr 0),
      adam_step = (\<lambda>opt w objective.
                     (Suc opt, case objective w of None \<Rightarrow> w | Some l \<Rightarrow> w - l))\<rparr>"

definition toy_ppo :: "(real, nat) PPO" where
  "toy_ppo =
     \<lparr>lr = 3 / 10000, betas = (9 / 10, 999 / 1000), gamma = 99 / 100, eps_clip = 1 / 5,
      K_epochs = 2,
      policy = \<lparr>params = 1, action_var = [1 / 4]\<rparr>, optimizer = 0,
      policy_old = \<lparr>params = 1, action_var = [1 / 4]\<rparr>\<rparr>"

definition toy_memory :: Memory where
  "toy_memory =
     \<lparr>actions = [[1], [0]], states = [[0, 0], [1, 2]], logprobs = [0, -1],
      rewards = [1, 1], is_terminals = [False, True]\<rparr>"

section \<open>Properties\<close>

subsection \<open>Returns of a single uninterrupted episode\<close>

text \<open>The discounted sum of a reward suffix, started from an accumulator \<open>d\<close>.\<close>

lemma returns_loop_no_terminal:
  "returns_loop g (zip (rev rs) (replicate (length rs) False)) d acc =
     map (\<lambda>i. foldr (\<lambda>r a. r + g * a) (drop i rs) d) [0..<length rs] @ acc"
proof (induction rs arbitrary: d acc rule: rev_induct)
  case Nil
  show ?case by simp
next
  case (snoc r rs)
  let ?f = "\<lambda>r a. r + g * a"
  have step: "returns_loop g (zip (rev (rs @ [r])) (replicate (length (rs @ [r])) False)) d acc =
        returns_loop g (zip (rev rs) (replicate (length rs) False))
          (r + g * d) ((r + g * d) # acc)"
    by (simp add: Let_def)
  have pre: "map (\<lambda>i. foldr ?f (drop i (rs @ [r])) d) [0..<length rs] =
        map (\<lambda>i. foldr ?f (drop i rs) (r + g * d)) [0..<length rs]"
    by (rule map_cong) auto
  have "map (\<lambda>i. foldr ?f (drop i (rs @ [r])) d) [0..<length (rs @ [r])] =
        map (\<lambda>i. foldr ?f (drop i (rs @ [r])) d) [0..<length rs] @ [r + g * d]"
    by simp
  with pre have "map (\<lambda>i. foldr ?f (drop i (rs @ [r])) d) [0..<length (rs @ [r])] @ acc =
        map (\<lambda>i. foldr ?f (drop i rs) (r + g * d)) [0..<length rs] @ (r + g * d) # acc"
    by simp
  with step snoc.IH [of "r + g * d" "(r + g * d) # acc"] show ?case
    by simp
qed

lemma foldr_discount_sum:
  "foldr (\<lambda>r a. r + g * a) xs 0 = (\<Sum>i<length xs. (g::real) ^ i * xs ! i)"
proof (induction xs)
  case Nil
  show ?case by simp
next
  case (Cons x xs)
  have "(\<Sum>i<length (x # xs). g ^ i * (x # xs) ! i) =
        x + (\<Sum>i<length xs. g ^ Suc i * xs ! i)"
    by (subst length_Cons, subst sum.lessThan_Suc_shift) simp
  also have "(\<Sum>i<length xs. g ^ Suc i * xs ! i) = g * (\<Sum>i<length xs. g ^ i * xs ! i)"
    by (simp add: sum_distrib_left mult.assoc)
  finally show ?case using Cons.IH by simp
qed

lemma discount_sum_shift:
  assumes "t \<le> n"
  shows "(\<Sum>i<n - t. (g::real) ^ i * f (t + i)) = (\<Sum>k = t..<n. g ^ (k - t) * f k)"
proof -
  have "(\<Sum>k = t..<n. g ^ (k - t) * f k) = (\<Sum>k = 0 + t..<(n - t) + t. g ^ (k - t) * f k)"
    using assms by simp
  also have "\<dots> = (\<Sum>i = 0..<n - t. g ^ (i + t - t) * f (i + t))"
    by (rule sum.shift_bounds_nat_ivl)
  finally show ?thesis by (simp add: atLeast0LessThan add.commute)
qed

lemma all_false_replicate:
  "(\<forall>i<length bs. \<not> bs ! i) \<Longrightarrow> bs = replicate (length bs) False"
  by (simp add: list_eq_iff_nth_eq)

lemma mc_returns_no_reset:
  assumes len: "length rws = length tms"
    and flags: "\<forall>i. Suc i < length tms \<longrightarrow> \<not> tms ! i"
  shows "mc_returns g rws tms =
           map (\<lambda>t. \<Sum>k = t..<length rws. g ^ (k - t) * rws ! k) [0..<length rws]"
proof (cases rws rule: rev_cases)
  case Nil
  with len show ?thesis by (simp add: mc_returns_def)
next
  case (snoc rs r)
  with len obtain bs b where bs: "tms = bs @ [b]" "length bs = length rs"
    by (cases tms rule: rev_cases) auto
  have "\<forall>i<length bs. \<not> bs ! i"
    using flags bs by (auto simp: nth_append)
  then have bsF: "bs = replicate (length rs) False"
    using all_false_replicate [of bs] bs by simp
  let ?f = "\<lambda>r a. r + g * a"
  have "mc_returns g rws tms =
        returns_loop g (zip (rev rs) (replicate (length rs) False)) r [r]"
    using snoc bs bsF by (simp add: mc_returns_def)
  also have "\<dots> = map (\<lambda>i. foldr ?f (drop i rs) r) [0..<length rs] @ [r]"
    by (rule returns_loop_no_terminal)
  also have "\<dots> = map (\<lambda>i. foldr ?f (drop i rws) 0) [0..<length rws]"
    using snoc by simp
  also have "\<dots> = map (\<lambda>t. \<Sum>k = t..<length rws. g ^ (k - t) * rws ! k) [0..<length rws]"
  proof (rule map_cong [OF refl])
    fix t assume "t \<in> set [0..<length rws]"
    then have t: "t \<le> length rws" by simp
    have "foldr ?f (drop t rws) 0 = (\<Sum>i<length rws - t. g ^ i * rws ! (t + i))"
      using t by (simp add: foldr_discount_sum)
    also have "\<dots> = (\<Sum>k = t..<length rws. g ^ (k - t) * rws ! k)"
      by (rule discount_sum_shift [OF t])
    finally show "foldr ?f (drop t rws) 0 = (\<Sum>k = t..<length rws. g ^ (k - t) * rws ! k)" .
  qed
  finally show ?thesis .
qed

text \<open>
  C1. For a buffer whose terminal flags are all false except possibly at the last step,
  update's return at step \<open>t\<close>, before normalisation, is the discounted sum
  \<open>\<Sum>k = t..T. gamma ^ (k - t) * reward k\<close>, and the earliest step's return comes first;
  for rewards [1,1,1], terminals [False,False,True] and gamma = 0.99 the returns are
  [2.9701, 1.99, 1.0] (in real arithmetic).
\<close>

theorem update_returns_single_episode:
  "(length rws = length tms \<and> (\<forall>i. Suc i < length tms \<longrightarrow> \<not> tms ! i) \<longrightarrow>
      length (mc_returns g rws tms) = length rws \<and>
      (\<forall>t<length rws. mc_returns g rws tms ! t = (\<Sum>k = t..<length rws. g ^ (k - t) * rws ! k)))
   \<and> mc_returns (99 / 100) [1, 1, 1] [False, False, True] = [29701 / 10000, 199 / 100, 1]"
proof (intro conjI impI)
  assume h: "length rws = length tms \<and> (\<forall>i. Suc i < length tms \<longrightarrow> \<not> tms ! i)"
  then have eq: "mc_returns g rws tms =
      map (\<lambda>t. \<Sum>k = t..<length rws. g ^ (k - t) * rws ! k) [0..<length rws]"
    using mc_returns_no_reset [of rws tms g] by blast
  show "length (mc_returns g rws tms) = length rws"
    by (simp add: eq)
  show "\<forall>t<length rws. mc_returns g rws tms ! t = (\<Sum>k = t..<length rws. g ^ (k - t) * rws ! k)"
    by (simp add: eq)
next
  show "mc_returns (99 / 100) [1, 1, 1] [False, False, True] = [29701 / 10000, 199 / 100, 1]"
    by (simp add: mc_returns_def)
qed

theorem update_returns_single_episode_witness:
  "length [2, 0, 4 :: real] = length [False, False, True] \<and>
   \<not> [False, False, True] ! 0 \<and> \<not> [False, False, True] ! 1 \<and>
   mc_returns (1 / 2) [2, 0, 4] [False, False, True] ! 0 = 3 \<and>
   mc_returns (1 / 2) [2, 0, 4] [False, False, True] ! 1 = 2 \<and>
   mc_returns (1 / 2) [2, 0, 4] [False, False, True] ! 2 = 4"
proof -
  have h: "length [2, 0, 4 :: real] = length [False, False, True] \<and>
      (\<forall>i. Suc i < length [False, False, True] \<longrightarrow> \<not> [False, False, True] ! i)"
    by (auto simp: nth_Cons' less_Suc_eq)
  let ?R = "mc_returns (1 / 2) [2, 0, 4] [False, False, True]"
  have "length ?R = length [2, 0, 4 :: real] \<and>
        (\<forall>t<length [2, 0, 4 :: real]. ?R ! t =
           (\<Sum>k = t..<length [2, 0, 4 :: real]. (1 / 2) ^ (k - t) * [2, 0, 4] ! k))"
    using update_returns_single_episode [of "[2, 0, 4]" "[False, False, True]" "1 / 2"] h
    by blast
  then have all: "\<And>t. t < length [2, 0, 4 :: real] \<Longrightarrow> ?R ! t =
           (\<Sum>k = t..<length [2, 0, 4 :: real]. (1 / 2) ^ (k - t) * [2, 0, 4] ! k)"
    by blast
  have "?R ! 0 = 3"
    by (subst all) (simp_all add: power2_eq_square)
  moreover have "?R ! 1 = 2"
    by (subst all) simp_all
  moreover have "?R ! 2 = 4"
    by (subst all) simp_all
  ultimately show ?thesis by simp
qed

subsection \<open>The clipped surrogate\<close>

lemma clamp_inside: "lo \<le> r \<Longrightarrow> r \<le> hi \<Longrightarrow> clamp r lo hi = r"
  by (simp add: clamp_def)

lemma clamp_above: "hi < r \<Longrightarrow> clamp r lo hi = hi"
  by (simp add: clamp_def min_def max_def)

lemma clamp_below: "r < lo \<Longrightarrow> lo \<le> hi \<Longrightarrow> clamp r lo hi = lo"
  by (simp add: clamp_def min_def max_def)

text \<open>
  C4, as the code has it. For a ratio inside the band \<open>[1 - eps_clip, 1 + eps_clip]\<close> the
  clipped surrogate equals the unclipped one. Above the band, with a positive advantage, it
  equals the upper boundary value \<open>(1 + eps_clip) * A\<close>. Below the band, with a positive
  advantage (and \<open>eps_clip \<ge> 0\<close>), the minimum picks the unclipped product \<open>r * A\<close>, which
  lies strictly below the lower boundary value \<open>(1 - eps_clip) * A\<close>.
\<close>

theorem clipped_surrogate_cases:
  "(1 - eps \<le> r \<and> r \<le> 1 + eps \<longrightarrow> L_CLIP eps r A = L_CPI r A) \<and>
   (1 + eps < r \<and> 0 < A \<longrightarrow> L_CLIP eps r A = (1 + eps) * A) \<and>
   (r < 1 - eps \<and> 0 < A \<and> 0 \<le> eps \<longrightarrow> L_CLIP eps r A = r * A \<and> L_CLIP eps r A < (1 - eps) * A)"
proof (intro conjI impI)
  assume "1 - eps \<le> r \<and> r \<le> 1 + eps"
  then show "L_CLIP eps r A = L_CPI r A"
    by (simp add: L_CLIP_def clamp_inside L_CPI_def)
next
  assume h: "1 + eps < r \<and> 0 < A"
  then have "(1 + eps) * A < r * A"
    by (simp add: mult_strict_right_mono)
  with h show "L_CLIP eps r A = (1 + eps) * A"
    by (simp add: L_CLIP_def clamp_above L_CPI_def)
next
  assume h: "r < 1 - eps \<and> 0 < A \<and> 0 \<le> eps"
  then have lt: "r * A < (1 - eps) * A"
    by (simp add: mult_strict_right_mono)
  with h show "L_CLIP eps r A = r * A"
    by (simp add: L_CLIP_def clamp_below L_CPI_def)
  with lt show "L_CLIP eps r A < (1 - eps) * A"
    by simp
qed

theorem clipped_surrogate_cases_witness:
  "L_CLIP (1 / 5) 1 2 = L_CPI 1 2 \<and> L_CLIP (1 / 5) 2 1 = (1 + 1 / 5) * 1 \<and>
   L_CLIP (1 / 5) (1 / 2) 1 = 1 / 2 * 1 \<and> L_CLIP (1 / 5) (1 / 2) 1 < (1 - 1 / 5) * 1"
  using clipped_surrogate_cases [of "1 / 5" 1 2] clipped_surrogate_cases [of "1 / 5" 2 1]
    clipped_surrogate_cases [of "1 / 5" "1 / 2" 1]
  by simp

text \<open>
  The claim as stated fails below the band: with \<open>eps_clip = 0.2\<close>, ratio \<open>0.5\<close> and
  advantage \<open>1\<close> the surrogate is \<open>0.5\<close>, which is neither boundary value (\<open>0.8\<close>, \<open>1.2\<close>).
\<close>

theorem clipped_surrogate_counterexample:
  "(1 / 2 :: real) < 1 - 1 / 5 \<and> (0 :: real) < 1 \<and>
   L_CLIP (1 / 5) (1 / 2) 1 = 1 / 2 \<and>
   L_CLIP (1 / 5) (1 / 2) 1 \<noteq> (1 - 1 / 5) * 1 \<and>
   L_CLIP (1 / 5) (1 / 2) 1 \<noteq> (1 + 1 / 5) * 1"
  by (simp add: L_CLIP_def L_CPI_def clamp_def)

subsection \<open>The loss\<close>

lemma broadcast_same: "length xs = length ys \<Longrightarrow> broadcast f xs ys = Inr (map2 f xs ys)"
  by (simp add: broadcast_def)

lemma those_map_Some: "those (map Some xs) = Some xs"
  by (induction xs) simp_all

lemma nan_mean_Some: "nan_mean (map Some xs) = tensor_mean xs"
  by (simp add: nan_mean_def those_map_Some)

lemma map2_Some_left: "map2 (\<lambda>a b. map_option (\<lambda>a. f a b) a) (map Some xs) ys = map Some (map2 f xs ys)"
  by (simp add: zip_map1 case_prod_unfold comp_def)

lemma map2_Some_right: "map2 (\<lambda>a b. map_option (f a) b) xs (map Some ys) = map Some (map2 f xs ys)"
  by (simp add: zip_map2 case_prod_unfold comp_def)

lemma sum_list_map2_nth:
  "length xs = n \<Longrightarrow> length ys = n \<Longrightarrow>
     sum_list (map2 f xs ys) = (\<Sum>i<n. (f (xs ! i) (ys ! i) :: real))"
  by (simp add: sum_list_sum_nth atLeast0LessThan)

lemma sum_list_map_upt: "sum_list (map f [0..<n]) = (\<Sum>i<n. (f i :: real))"
  by (simp add: sum_list_sum_nth atLeast0LessThan)

lemma MseLoss_Some:
  assumes "length v = length R"
  shows "MseLoss v (map Some R) = Inr (tensor_mean (map2 (\<lambda>v R. (v - R)\<^sup>2) v R))"
proof -
  have "length v = length (map Some R)" using assms by simp
  then have "broadcast (\<lambda>v R. map_option (\<lambda>R. (v - R)\<^sup>2) R) v (map Some R) =
      Inr (map Some (map2 (\<lambda>v R. (v - R)\<^sup>2) v R))"
    by (simp only: broadcast_same map2_Some_right)
  then show ?thesis
    by (simp only: MseLoss_def sum.case nan_mean_Some)
qed

lemma surrogate_loss_Some:
  assumes "length ratios = n" "length R = n" "length v = n" "length ent = n" "length d = n"
    and "0 < n"
  shows "surrogate_loss eps (map Some R) ratios v ent d =
     Inr (Some (sum_list (map2 (\<lambda>l e. - l + 0.5 * (sum_list (map2 (\<lambda>v R. (v - R)\<^sup>2) v R) / real n) - 0.01 * e)
                           (map2 (L_CLIP eps) ratios (map2 (-) R d)) ent) / real n))"
proof -
  let ?A = "map2 (-) R d"
  let ?L = "map2 (L_CLIP eps) ratios ?A"
  let ?m = "sum_list (map2 (\<lambda>v R. (v - R)\<^sup>2) v R) / real n"
  let ?loss = "map2 (\<lambda>l e. - l + 0.5 * ?m - 0.01 * e) ?L ent"
  have "length (map Some R) = length d" using assms by simp
  then have adv: "broadcast (\<lambda>R v. map_option (\<lambda>R. R - v) R) (map Some R) d = Inr (map Some ?A)"
    by (simp only: broadcast_same map2_Some_left)
  have "length ratios = length (map Some ?A)" using assms by simp
  then have clip: "broadcast (\<lambda>r A. map_option (L_CLIP eps r) A) ratios (map Some ?A) =
      Inr (map Some ?L)"
    by (simp only: broadcast_same map2_Some_right)
  have "map2 (\<lambda>v R. (v - R)\<^sup>2) v R \<noteq> []" using assms by auto
  then have mse: "MseLoss v (map Some R) = Inr (Some ?m)"
    using assms by (simp add: MseLoss_Some tensor_mean_def)
  have lf: "(\<lambda>l e. lift2 (\<lambda>l m. - l + 0.5 * m - 0.01 * e) l (Some ?m)) =
        (\<lambda>l e. map_option (\<lambda>l. - l + 0.5 * ?m - 0.01 * e) l)"
    by (intro ext) (simp add: lift2_def split: option.splits)
  have "length (map Some ?L) = length ent" using assms by simp
  then have loss: "broadcast (\<lambda>l e. lift2 (\<lambda>l m. - l + 0.5 * m - 0.01 * e) l (Some ?m))
        (map Some ?L) ent = Inr (map Some ?loss)"
    by (simp only: lf broadcast_same map2_Some_left)
  have ne: "?loss \<noteq> []" "length ?loss = n" using assms by auto
  have "surrogate_loss eps (map Some R) ratios v ent d = Inr (nan_mean (map Some ?loss))"
    by (simp only: surrogate_loss_def loss_vector_def adv clip mse loss sum.case)
  also have "\<dots> = Inr (Some (sum_list ?loss / real n))"
    using ne by (simp only: nan_mean_Some tensor_mean_def if_False)
  finally show ?thesis .
qed

lemma batch_loss_algebra:
  assumes "length L = n" "length R = n" "length v = n" "length ent = n" "0 < n"
  shows "sum_list (map2 (\<lambda>l e. - l + 0.5 * (sum_list (map2 (\<lambda>v R. (v - R)\<^sup>2) v R) / real n) - 0.01 * e) L ent)
           / real n = spec_batch_loss L v R ent"
proof -
  let ?m = "sum_list (map2 (\<lambda>v R. (v - R)\<^sup>2) v R) / real n"
  have sq: "sum_list (map2 (\<lambda>v R. (v - R)\<^sup>2) v R) = (\<Sum>i<n. (v ! i - R ! i)\<^sup>2)"
    using assms by (simp only: sum_list_map2_nth)
  have "sum_list (map2 (\<lambda>l e. - l + 0.5 * ?m - 0.01 * e) L ent) =
        (\<Sum>i<n. - (L ! i) + 0.5 * ?m - 0.01 * ent ! i)"
    using assms by (simp only: sum_list_map2_nth)
  also have "\<dots> = (\<Sum>i<n. - (L ! i) - 0.01 * ent ! i) + real n * (0.5 * ?m)"
    by (simp add: sum.distrib sum_subtractf sum_negf)
  also have "real n * (0.5 * ?m) = (\<Sum>i<n. 0.5 * (v ! i - R ! i)\<^sup>2)"
  proof -
    have "real n * (0.5 * ?m) = 0.5 * sum_list (map2 (\<lambda>v R. (v - R)\<^sup>2) v R)"
      using \<open>0 < n\<close> by simp
    also have "\<dots> = 0.5 * (\<Sum>i<n. (v ! i - R ! i)\<^sup>2)"
      by (simp only: sq)
    also have "\<dots> = (\<Sum>i<n. 0.5 * (v ! i - R ! i)\<^sup>2)"
      by (rule sum_distrib_left)
    finally show ?thesis .
  qed
  also have "(\<Sum>i<n. - (L ! i) - 0.01 * ent ! i) + (\<Sum>i<n. 0.5 * (v ! i - R ! i)\<^sup>2) =
        (\<Sum>i<n. spec_step_loss (L ! i) (v ! i) (R ! i) (ent ! i))"
    by (simp add: spec_step_loss_def sum.distrib sum_subtractf sum_negf)
  finally show ?thesis
    using assms by (simp add: spec_batch_loss_def sum_list_map_upt)
qed

text \<open>
  C7. On a batch of \<open>n > 0\<close> steps with finite returns, the scalar that update
  backpropagates (the mean of the vector \<open>- L_CLIP + 0.5 * MseLoss - 0.01 * entropy\<close>, the
  scalar mean-squared error being added to every entry) equals the batch average of the
  specification's per-step loss.
\<close>

theorem loss_mean_is_spec_batch_average:
  assumes "length ratios = n" "length R = n" "length v = n" "length ent = n" "length d = n"
    and "0 < n"
  shows "surrogate_loss eps (map Some R) ratios v ent d =
     Inr (Some (spec_batch_loss (map2 (L_CLIP eps) ratios (map2 (-) R d)) v R ent))"
proof -
  have "length (map2 (L_CLIP eps) ratios (map2 (-) R d)) = n"
    using assms by simp
  then show ?thesis
    using assms by (simp only: surrogate_loss_Some batch_loss_algebra)
qed

theorem loss_mean_is_spec_batch_average_witness:
  "surrogate_loss (1 / 5) (map Some [1, 0]) [1, 2] [0, 1] [3, 4] [0, 1] =
     Inr (Some (spec_batch_loss (map2 (L_CLIP (1 / 5)) [1, 2] (map2 (-) [1, 0] [0, 1])) [0, 1] [1, 0] [3, 4]))
   \<and> spec_batch_loss (map2 (L_CLIP (1 / 5)) [1, 2] (map2 (-) [1, 0] [0, 1])) [0, 1] [1, 0] [3, 4] = 193 / 200"
proof -
  have "surrogate_loss (1 / 5) (map Some [1, 0]) [1, 2] [0, 1] [3, 4] [0, 1] =
     Inr (Some (spec_batch_loss (map2 (L_CLIP (1 / 5)) [1, 2] (map2 (-) [1, 0] [0, 1])) [0, 1] [1, 0] [3, 4]))"
    by (rule loss_mean_is_spec_batch_average [where n = 2]) simp_all
  moreover have "spec_batch_loss (map2 (L_CLIP (1 / 5)) [1, 2] (map2 (-) [1, 0] [0, 1])) [0, 1] [1, 0] [3, 4] = 193 / 200"
    by (simp add: spec_batch_loss_def spec_step_loss_def L_CLIP_def L_CPI_def clamp_def)
  ultimately show ?thesis by simp
qed

subsection \<open>A call of update on a well-formed buffer\<close>

lemma length_returns_loop: "length (returns_loop g zs d acc) = length zs + length acc"
  by (induction g zs d acc rule: returns_loop.induct) (simp_all add: Let_def)

lemma length_mc_returns: "length (mc_returns g rs ts) = min (length rs) (length ts)"
  by (simp add: mc_returns_def length_returns_loop)

lemma those_length: "those xs = Some ys \<Longrightarrow> length ys = length xs"
  by (induction xs arbitrary: ys) (auto split: option.splits)


lemma length_normalize_returns: "length (normalize_returns cast xs) = length xs"
  by (auto simp: normalize_returns_def dest: those_length split: option.splits)

lemma stack_ok: "ts \<noteq> [] \<Longrightarrow> list_all (\<lambda>t. length t = length (hd ts)) ts \<Longrightarrow> stack ts = Inr ts"
  by (simp add: stack_def)

lemma mapE_length: "mapE f xs = Inr ys \<Longrightarrow> length ys = length xs"
  by (induction xs arbitrary: ys) (auto split: sum.splits)

lemma evaluate_lengths:
  assumes "evaluate T pol S A = Inr (lp, v, ent)" and "length S = length A"
  shows "length lp = length S \<and> length v = length S \<and> length ent = length S"
proof -
  from assms(1) obtain am dist pairs where
    am: "mapE (actor_net T (params pol)) S = Inr am" and
    dist: "mapE (\<lambda>m. MultivariateNormal T m (action_var pol)) am = Inr dist" and
    pairs: "broadcast Pair dist A = Inr pairs" and
    lp: "mapE (\<lambda>(m, a). mvn_log_prob T m (action_var pol) a) pairs = Inr lp" and
    v: "mapE (critic_net T (params pol)) S = Inr v" and
    ent: "ent = map (\<lambda>m. mvn_entropy T m (action_var pol)) dist"
    by (auto simp: evaluate_def Let_def split: sum.splits)
  have ld: "length dist = length S"
    using mapE_length [OF am] mapE_length [OF dist] by simp
  then have "pairs = map2 Pair dist A"
    using pairs assms(2) by (simp add: broadcast_same)
  then have "length pairs = length S"
    using ld assms(2) by simp
  then show ?thesis
    using mapE_length [OF lp] mapE_length [OF v] ent ld by simp
qed

lemma epoch_body_ok:
  assumes "evaluate T pol S A = Inr (lp, v, ent)" and "length L = length lp"
  shows "epoch_body T pol S A L = Inr (lp, v, ent, map2 (\<lambda>l old. exp (l - old)) lp L)"
  using assms by (simp add: epoch_body_def broadcast_same)

lemma epochs_ok:
  assumes "epoch_body T pol S A L = Inr tensors"
  shows "epochs T pol S A L js vars =
     (None, map Evaluate js, if js = [] then vars else Some (last js, tensors))"
  using assms by (induction js arbitrary: vars) simp_all

lemma loss_vector_defined:
  assumes "length Returns = n" "length ratios = n" "length v = n" "length ent = n" "length d = n"
  shows "\<exists>loss. loss_vector eps Returns ratios v ent d = Inr loss \<and> length loss = n"
  using assms by (simp add: loss_vector_def MseLoss_def broadcast_same)

lemma upto_epochs: "1 \<le> K \<Longrightarrow> [0..K - 1] \<noteq> [] \<and> last [0..K - 1] = K - 1"
  by (simp add: upto_rec2)

lemma update_ok:
  assumes wf: "well_formed memory" and ne: "states memory \<noteq> []" and K: "1 \<le> K_epochs self"
    and ev: "evaluate T (policy self) (states memory) (actions memory) = Inr (lp, v, ent)"
  shows "update T self memory =
    (let Returns = normalize_returns (float32 T)
                     (mc_returns (gamma self) (rewards memory) (is_terminals memory));
         step = adam_step T (optimizer self) (params (policy self))
                  (loss_graph T (policy self) (eps_clip self) Returns
                     (states memory) (actions memory) (logprobs memory) v)
     in \<lparr>exc = None,
         ppo = self\<lparr>optimizer := fst step,
                     policy := (policy self)\<lparr>params := snd step\<rparr>,
                     policy_old := (policy_old self)\<lparr>params := snd step\<rparr>\<rparr>,
         mem = memory,
         trace = [TensorMean (length (states memory)), TensorStd (length (states memory))]
                 @ map Evaluate [0..K_epochs self - 1]
                 @ [ZeroGrad, TensorMean (length (states memory)), Backward (K_epochs self - 1),
                    OptimizerStep, LoadStateDict]\<rparr>)"
proof -
  let ?n = "length (states memory)"
  let ?S = "states memory" and ?A = "actions memory" and ?L = "logprobs memory"
  let ?pol = "policy self"
  let ?R = "normalize_returns (float32 T)
              (mc_returns (gamma self) (rewards memory) (is_terminals memory))"
  let ?ratios = "map2 (\<lambda>l old. exp (l - old)) lp ?L"
  have lens: "length ?A = ?n" "length ?L = ?n" "length (rewards memory) = ?n"
      "length (is_terminals memory) = ?n"
    using wf by (simp_all add: well_formed_def)
  have neA: "?A \<noteq> []" and neL: "?L \<noteq> []"
    using lens ne by auto
  have lenR0: "length (mc_returns (gamma self) (rewards memory) (is_terminals memory)) = ?n"
    by (simp add: length_mc_returns lens)
  have lenR: "length ?R = ?n"
    by (simp add: length_normalize_returns lenR0)
  have st: "stack ?S = Inr ?S" "stack ?A = Inr ?A" "stack_scalars ?L = Inr ?L"
    using wf ne neA neL by (simp_all add: stack_ok well_formed_def stack_scalars_def)
  have evl: "length lp = ?n" "length v = ?n" "length ent = ?n"
    using evaluate_lengths [OF ev] lens by simp_all
  have body: "epoch_body T ?pol ?S ?A ?L = Inr (lp, v, ent, ?ratios)"
    by (rule epoch_body_ok [OF ev]) (simp add: lens evl)
  have ep: "epochs T ?pol ?S ?A ?L [0..K_epochs self - 1] None =
      (None, map Evaluate [0..K_epochs self - 1], Some (K_epochs self - 1, lp, v, ent, ?ratios))"
    using upto_epochs [OF K] by (simp only: epochs_ok [OF body] if_False)
  obtain loss where l: "loss_vector (eps_clip self) ?R ?ratios v ent v = Inr loss"
      and ll: "length loss = ?n"
    using loss_vector_defined [of ?R ?n ?ratios v ent v "eps_clip self"] lenR lens evl
    by auto
  show ?thesis
    unfolding update_def Let_def
    by (simp add: st ep l ll lenR0 load_state_dict_def state_dict_def split_beta del: map_map)
qed

lemma update_mem: "mem (update T self memory) = memory"
  by (simp add: update_def Let_def raised_def split_beta
      split: sum.splits option.splits prod.splits)

lemma update_sync:
  "exc (update T self memory) = None \<Longrightarrow>
     params (policy_old (ppo (update T self memory))) = params (policy (ppo (update T self memory)))"
  by (auto simp: update_def Let_def raised_def load_state_dict_def state_dict_def
      split: sum.splits option.splits prod.splits)

lemma toy_wf: "well_formed toy_memory" "states toy_memory \<noteq> []" "1 \<le> K_epochs toy_ppo"
  by (simp_all add: well_formed_def toy_memory_def toy_ppo_def)

lemma toy_evaluate:
  "evaluate toy_torch (policy toy_ppo) (states toy_memory) (actions toy_memory) =
     Inr ([0, - 1], [1, 1], [1 / 4, 1 / 4])"
  by (simp add: evaluate_def toy_torch_def toy_ppo_def toy_memory_def broadcast_def)

lemma toy_update_exc: "exc (update toy_torch toy_ppo toy_memory) = None"
  by (simp add: update_ok [OF toy_wf toy_evaluate] Let_def)

text \<open>
  C3. Action selection leaves the optimiser object, and so the old snapshot, as it was,
  whether the call returns or raises; its outcome and the buffer it leaves are those of
  \<^verbatim>\<open>act\<close> of the old snapshot; an action it returns is the sample drawn from the
  distribution built from the old snapshot's actor and variance (not the current
  policy's); and whenever update returns, the old snapshot's parameters equal the current
  policy's parameters.
\<close>

theorem action_selection_old_policy_and_sync:
  "fst (snd (action_selection T self state memory noise)) = self \<and>
   fst (action_selection T self state memory noise) =
     map_sum id data (fst (act T (policy_old self) state memory noise)) \<and>
   snd (snd (action_selection T self state memory noise)) =
     snd (act T (policy_old self) state memory noise) \<and>
   (fst (action_selection T self state memory noise) = Inr a \<longrightarrow>
      (\<exists>loc mean. actor_net T (params (policy_old self)) state = Inr loc \<and>
         MultivariateNormal T loc (action_var (policy_old self)) = Inr mean \<and>
         a = mvn_sample T mean (action_var (policy_old self)) noise)) \<and>
   (exc (update T self memory) = None \<longrightarrow>
      params (policy_old (ppo (update T self memory))) = params (policy (ppo (update T self memory))))"
proof (intro conjI impI)
  show "fst (snd (action_selection T self state memory noise)) = self"
    by (simp add: action_selection_def split: prod.splits sum.splits)
  show "fst (action_selection T self state memory noise) =
     map_sum id data (fst (act T (policy_old self) state memory noise))"
    by (simp add: action_selection_def split: prod.splits sum.splits)
  show "snd (snd (action_selection T self state memory noise)) =
     snd (act T (policy_old self) state memory noise)"
    by (simp add: action_selection_def split: prod.splits sum.splits)
next
  assume "fst (action_selection T self state memory noise) = Inr a"
  then show "\<exists>loc mean. actor_net T (params (policy_old self)) state = Inr loc \<and>
         MultivariateNormal T loc (action_var (policy_old self)) = Inr mean \<and>
         a = mvn_sample T mean (action_var (policy_old self)) noise"
    by (auto simp: action_selection_def act_def Let_def detach_def split: prod.splits sum.splits)
next
  assume "exc (update T self memory) = None"
  then show "params (policy_old (ppo (update T self memory))) = params (policy (ppo (update T self memory)))"
    by (rule update_sync)
qed

text \<open>
  In the witness the current policy (weight 5) differs from the old snapshot (weight 1):
  the action returned is the old snapshot's mean plus the noise.
\<close>

theorem action_selection_old_policy_and_sync_witness:
  "exc (update toy_torch toy_ppo toy_memory) = None \<and>
   params (policy_old (ppo (update toy_torch toy_ppo toy_memory))) =
     params (policy (ppo (update toy_torch toy_ppo toy_memory))) \<and>
   fst (snd (action_selection toy_torch (toy_ppo\<lparr>policy := \<lparr>params = 5, action_var = [1 / 4]\<rparr>\<rparr>)
               [0, 0] toy_memory [1 / 2])) =
     toy_ppo\<lparr>policy := \<lparr>params = 5, action_var = [1 / 4]\<rparr>\<rparr> \<and>
   fst (action_selection toy_torch (toy_ppo\<lparr>policy := \<lparr>params = 5, action_var = [1 / 4]\<rparr>\<rparr>)
          [0, 0] toy_memory [1 / 2]) = Inr [3 / 2]"
proof -
  let ?self = "toy_ppo\<lparr>policy := \<lparr>params = 5, action_var = [1 / 4]\<rparr>\<rparr>"
  note t = action_selection_old_policy_and_sync [of toy_torch ?self "[0, 0]" toy_memory "[1 / 2]"]
  note u = action_selection_old_policy_and_sync [of toy_torch toy_ppo "[0, 0]" toy_memory "[1 / 2]"]
  have "fst (act toy_torch (policy_old ?self) [0, 0] toy_memory [1 / 2]) =
          Inr \<lparr>data = [3 / 2], requires_grad = False\<rparr>"
    by (simp add: act_def toy_torch_def toy_ppo_def Let_def detach_def)
  moreover from t have "fst (action_selection toy_torch ?self [0, 0] toy_memory [1 / 2]) =
      map_sum id data (fst (act toy_torch (policy_old ?self) [0, 0] toy_memory [1 / 2]))"
    by blast
  ultimately have "fst (action_selection toy_torch ?self [0, 0] toy_memory [1 / 2]) = Inr [3 / 2]"
    by simp
  moreover from t have "fst (snd (action_selection toy_torch ?self [0, 0] toy_memory [1 / 2])) = ?self"
    by (rule conjunct1)
  moreover from u toy_update_exc have "params (policy_old (ppo (update toy_torch toy_ppo toy_memory))) =
     params (policy (ppo (update toy_torch toy_ppo toy_memory)))"
    by blast
  ultimately show ?thesis using toy_update_exc by simp
qed

subsection \<open>The epoch loop and the single gradient step\<close>

text \<open>
  C2, as the code has it. For a non-empty well-formed buffer, \<open>K_epochs \<ge> 1\<close> and a policy
  whose \<^verbatim>\<open>evaluate\<close> does not raise on the buffered batch, update returns, and the calls
  it makes are the two reductions of line 115, then one \<^verbatim>\<open>evaluate\<close> per epoch
  \<open>0, \<dots>, K_epochs - 1\<close> (so exactly \<open>K_epochs\<close> of them), then one \<^verbatim>\<open>zero_grad\<close>, the
  mean of the loss, one backward pass through the tensors assigned by the last epoch
  \<open>K_epochs - 1\<close>, one optimiser step and the copy into the old snapshot. The new weights
  are one \<open>adam_step\<close> from the weights update started with, on the loss graph built from
  \<^verbatim>\<open>evaluate\<close> of the current policy.
\<close>

theorem update_K_evaluates_one_step:
  assumes "well_formed memory" and "states memory \<noteq> []" and "1 \<le> K_epochs self"
    and "evaluate T (policy self) (states memory) (actions memory) = Inr (lp, v, ent)"
  shows "exc (update T self memory) = None \<and>
     trace (update T self memory) =
       [TensorMean (length (states memory)), TensorStd (length (states memory))]
       @ map Evaluate [0..K_epochs self - 1]
       @ [ZeroGrad, TensorMean (length (states memory)), Backward (K_epochs self - 1),
          OptimizerStep, LoadStateDict] \<and>
     int (length (map Evaluate [0..K_epochs self - 1])) = K_epochs self \<and>
     params (policy (ppo (update T self memory))) =
       snd (adam_step T (optimizer self) (params (policy self))
              (loss_graph T (policy self) (eps_clip self)
                 (normalize_returns (float32 T)
                    (mc_returns (gamma self) (rewards memory) (is_terminals memory)))
                 (states memory) (actions memory) (logprobs memory) v))"
  using assms by (simp add: update_ok Let_def)

theorem update_K_evaluates_one_step_witness:
  "evaluate toy_torch (policy toy_ppo) (states toy_memory) (actions toy_memory) =
     Inr ([0, - 1], [1, 1], [1 / 4, 1 / 4]) \<and>
   exc (update toy_torch toy_ppo toy_memory) = None \<and>
   trace (update toy_torch toy_ppo toy_memory) =
     [TensorMean 2, TensorStd 2, Evaluate 0, Evaluate 1, ZeroGrad, TensorMean 2, Backward 1,
      OptimizerStep, LoadStateDict]"
proof -
  have "[0..K_epochs toy_ppo - 1] = [0, 1]" "length (states toy_memory) = 2" "K_epochs toy_ppo - 1 = 1"
    by (simp_all add: toy_ppo_def toy_memory_def upto_rec1)
  then show ?thesis
    using update_K_evaluates_one_step [OF toy_wf toy_evaluate] toy_evaluate by simp
qed

text \<open>
  The claim as stated fails for \<open>K_epochs = 0\<close>: the loop body never runs, line 130 reads the
  unassigned \<^verbatim>\<open>state_values\<close>, and update raises before any backward pass or optimiser
  step. It fails as well when \<^verbatim>\<open>evaluate\<close> raises: with a variance of zero the
  distribution is refused in the first epoch, and update raises after one \<^verbatim>\<open>evaluate\<close>,
  again with no backward pass and no optimiser step.
\<close>

theorem update_no_gradient_step_counterexample:
  "well_formed toy_memory \<and> states toy_memory \<noteq> [] \<and>
   exc (update toy_torch (toy_ppo\<lparr>K_epochs := 0\<rparr>) toy_memory) = Some NameError \<and>
   trace (update toy_torch (toy_ppo\<lparr>K_epochs := 0\<rparr>) toy_memory) = [TensorMean 2, TensorStd 2] \<and>
   exc (update toy_torch (toy_ppo\<lparr>policy := \<lparr>params = 1, action_var = [0]\<rparr>\<rparr>) toy_memory) =
     Some ValueError \<and>
   trace (update toy_torch (toy_ppo\<lparr>policy := \<lparr>params = 1, action_var = [0]\<rparr>\<rparr>) toy_memory) =
     [TensorMean 2, TensorStd 2, Evaluate 0]"
proof -
  have "exc (update toy_torch (toy_ppo\<lparr>K_epochs := 0\<rparr>) toy_memory) = Some NameError \<and>
   trace (update toy_torch (toy_ppo\<lparr>K_epochs := 0\<rparr>) toy_memory) = [TensorMean 2, TensorStd 2]"
    by (simp add: update_def Let_def raised_def stack_def stack_scalars_def
      toy_memory_def mc_returns_def)
  moreover have
    "exc (update toy_torch (toy_ppo\<lparr>policy := \<lparr>params = 1, action_var = [0]\<rparr>\<rparr>) toy_memory) =
       Some ValueError \<and>
     trace (update toy_torch (toy_ppo\<lparr>policy := \<lparr>params = 1, action_var = [0]\<rparr>\<rparr>) toy_memory) =
       [TensorMean 2, TensorStd 2, Evaluate 0]"
    by (simp add: update_def Let_def raised_def stack_def stack_scalars_def toy_memory_def
      mc_returns_def toy_ppo_def upto_rec1 epoch_body_def evaluate_def toy_torch_def)
  ultimately show ?thesis using toy_wf by simp
qed

subsection \<open>The buffer across update\<close>

text \<open>
  C5, as the code has it. Update never changes the buffer: whether it returns or raises, the
  buffer it was passed is left as it was. The emptying is the driver's: when update
  returns, the driver's next statement \<^verbatim>\<open>memory.clear_memory()\<close> leaves all five
  sequences empty.
\<close>

theorem update_keeps_buffer_driver_clears:
  "mem (update T self memory) = memory \<and>
   (exc (update_and_clear T self memory) = None \<longrightarrow>
      states (mem (update_and_clear T self memory)) = [] \<and>
      actions (mem (update_and_clear T self memory)) = [] \<and>
      logprobs (mem (update_and_clear T self memory)) = [] \<and>
      rewards (mem (update_and_clear T self memory)) = [] \<and>
      is_terminals (mem (update_and_clear T self memory)) = [])"
  by (cases "exc (update T self memory)")
     (simp_all add: update_mem update_and_clear_def Let_def clear_memory_def)

theorem update_keeps_buffer_driver_clears_witness:
  "exc (update_and_clear toy_torch toy_ppo toy_memory) = None \<and>
   mem (update toy_torch toy_ppo toy_memory) = toy_memory \<and>
   states (mem (update_and_clear toy_torch toy_ppo toy_memory)) = [] \<and>
   actions (mem (update_and_clear toy_torch toy_ppo toy_memory)) = [] \<and>
   logprobs (mem (update_and_clear toy_torch toy_ppo toy_memory)) = [] \<and>
   rewards (mem (update_and_clear toy_torch toy_ppo toy_memory)) = [] \<and>
   is_terminals (mem (update_and_clear toy_torch toy_ppo toy_memory)) = []"
proof -
  have "exc (update_and_clear toy_torch toy_ppo toy_memory) = None"
    using toy_update_exc by (simp add: update_and_clear_def Let_def)
  then show ?thesis
    using update_keeps_buffer_driver_clears [of toy_torch toy_ppo toy_memory] by simp
qed

text \<open>
  The claim as stated fails: after update has returned on a buffer of two steps, the five
  sequences still have length two.
\<close>

theorem update_does_not_clear_counterexample:
  "exc (update toy_torch toy_ppo toy_memory) = None \<and>
   length (states (mem (update toy_torch toy_ppo toy_memory))) = 2 \<and>
   length (actions (mem (update toy_torch toy_ppo toy_memory))) = 2 \<and>
   length (logprobs (mem (update toy_torch toy_ppo toy_memory))) = 2 \<and>
   length (rewards (mem (update toy_torch toy_ppo toy_memory))) = 2 \<and>
   length (is_terminals (mem (update toy_torch toy_ppo toy_memory))) = 2"
  by (simp add: toy_update_exc update_mem) (simp add: toy_memory_def)

subsection \<open>Update on an empty buffer\<close>

text \<open>
  C9, as the code has it. On an empty buffer update does enter the reductions of line 115:
  the mean and the standard deviation of the empty return tensor are taken (both NaN, no
  exception). Update then raises torch's \<open>RuntimeError\<close> at line 117, where
  \<^verbatim>\<open>torch.stack\<close> is given the empty list of states; the optimiser object and the
  buffer are left as they were, and no \<^verbatim>\<open>evaluate\<close>, backward pass or optimiser step
  takes place.
\<close>

theorem update_empty_buffer:
  assumes "states memory = []" and "actions memory = []" and "logprobs memory = []"
    and "rewards memory = []" and "is_terminals memory = []"
  shows "exc (update T self memory) = Some RuntimeError \<and>
     trace (update T self memory) = [TensorMean 0, TensorStd 0] \<and>
     tensor_mean [] = None \<and> tensor_std [] = None \<and>
     ppo (update T self memory) = self \<and> mem (update T self memory) = memory"
  using assms
  by (simp add: update_def Let_def raised_def stack_def mc_returns_def tensor_mean_def
      tensor_std_def)

theorem update_empty_buffer_witness:
  "exc (update toy_torch toy_ppo Memory_init) = Some RuntimeError \<and>
   trace (update toy_torch toy_ppo Memory_init) = [TensorMean 0, TensorStd 0] \<and>
   ppo (update toy_torch toy_ppo Memory_init) = toy_ppo \<and>
   mem (update toy_torch toy_ppo Memory_init) = Memory_init"
  using update_empty_buffer [of Memory_init toy_torch toy_ppo]
  by (simp add: Memory_init_def)

text \<open>
  The claim as stated fails: on the empty buffer the trace of update holds the two
  reductions over zero entries, and the exception is the library's \<open>RuntimeError\<close>.
\<close>

theorem update_empty_buffer_counterexample:
  "trace (update toy_torch toy_ppo Memory_init) = [TensorMean 0, TensorStd 0] \<and>
   exc (update toy_torch toy_ppo Memory_init) = Some RuntimeError \<and>
   length (rewards Memory_init) = 0 \<and> length (states Memory_init) = 0"
  by (simp add: update_def Let_def raised_def stack_def mc_returns_def Memory_init_def)

subsection \<open>The effect of act on the buffer\<close>

text \<open>
  C10, as the code has it. A call of \<^verbatim>\<open>act\<close> that returns has appended exactly one
  element to each of the states, the actions and the log-probabilities of the buffer (the
  state it was given, the action it sampled and that action's log-probability), and the
  tensor it returns has the entries of the action it appended and no gradient tracking. A
  call in which the network or the distribution raises has appended nothing. In both cases
  the rewards and the terminal flags are unchanged.
\<close>

theorem act_appends_one_step_when_it_returns:
  "(fst (act T self state memory noise) = Inr a \<longrightarrow>
      states (snd (act T self state memory noise)) = states memory @ [state] \<and>
      actions (snd (act T self state memory noise)) = actions memory @ [data a] \<and>
      (\<exists>loc mean lp. actor_net T (params self) state = Inr loc \<and>
         MultivariateNormal T loc (action_var self) = Inr mean \<and>
         data a = mvn_sample T mean (action_var self) noise \<and>
         mvn_log_prob T mean (action_var self) (data a) = Inr lp \<and>
         logprobs (snd (act T self state memory noise)) = logprobs memory @ [lp]) \<and>
      data a = last (actions (snd (act T self state memory noise))) \<and>
      requires_grad a = False) \<and>
   (fst (act T self state memory noise) = Inl e \<longrightarrow>
      snd (act T self state memory noise) = memory) \<and>
   rewards (snd (act T self state memory noise)) = rewards memory \<and>
   is_terminals (snd (act T self state memory noise)) = is_terminals memory"
  by (auto simp: act_def Let_def detach_def split: sum.splits)

theorem act_appends_one_step_when_it_returns_witness:
  "fst (act toy_torch (policy toy_ppo) [0, 0] toy_memory [1 / 2]) =
     Inr \<lparr>data = [3 / 2], requires_grad = False\<rparr> \<and>
   states (snd (act toy_torch (policy toy_ppo) [0, 0] toy_memory [1 / 2])) =
     states toy_memory @ [[0, 0]] \<and>
   actions (snd (act toy_torch (policy toy_ppo) [0, 0] toy_memory [1 / 2])) =
     actions toy_memory @ [[3 / 2]] \<and>
   length (logprobs (snd (act toy_torch (policy toy_ppo) [0, 0] toy_memory [1 / 2]))) = 3 \<and>
   fst (act toy_torch \<lparr>params = 1, action_var = [0]\<rparr> [0, 0] toy_memory [1 / 2]) =
     Inl ValueError \<and>
   snd (act toy_torch \<lparr>params = 1, action_var = [0]\<rparr> [0, 0] toy_memory [1 / 2]) = toy_memory"
proof -
  let ?a = "\<lparr>data = [3 / 2], requires_grad = False\<rparr>"
  have r: "fst (act toy_torch (policy toy_ppo) [0, 0] toy_memory [1 / 2]) = Inr ?a"
    by (simp add: act_def toy_torch_def toy_ppo_def Let_def detach_def)
  have e: "fst (act toy_torch \<lparr>params = 1, action_var = [0]\<rparr> [0, 0] toy_memory [1 / 2]) =
      Inl ValueError"
    by (simp add: act_def toy_torch_def Let_def)
  note t = act_appends_one_step_when_it_returns
    [of toy_torch "policy toy_ppo" "[0, 0]" toy_memory "[1 / 2]" ?a]
  note u = act_appends_one_step_when_it_returns
    [of toy_torch "\<lparr>params = 1, action_var = [0]\<rparr>" "[0, 0]" toy_memory "[1 / 2]" _ ValueError]
  from t r have "states (snd (act toy_torch (policy toy_ppo) [0, 0] toy_memory [1 / 2])) =
      states toy_memory @ [[0, 0]]"
    "actions (snd (act toy_torch (policy toy_ppo) [0, 0] toy_memory [1 / 2])) =
      actions toy_memory @ [data ?a]"
    "\<exists>lp. logprobs (snd (act toy_torch (policy toy_ppo) [0, 0] toy_memory [1 / 2])) =
      logprobs toy_memory @ [lp]"
    by blast+
  moreover from u e have "snd (act toy_torch \<lparr>params = 1, action_var = [0]\<rparr> [0, 0] toy_memory [1 / 2]) =
      toy_memory"
    by blast
  moreover have "length (logprobs toy_memory) = 2"
    by (simp add: toy_memory_def)
  ultimately show ?thesis using r e by auto
qed

text \<open>
  The claim as stated fails: with a variance of zero the distribution is refused, the call
  raises before the appends, and the three sequences keep their two elements.
\<close>

theorem act_raises_counterexample:
  "fst (act toy_torch \<lparr>params = 1, action_var = [0]\<rparr> [0, 0] toy_memory [1 / 2]) = Inl ValueError \<and>
   length (states (snd (act toy_torch \<lparr>params = 1, action_var = [0]\<rparr> [0, 0] toy_memory [1 / 2]))) = 2 \<and>
   length (actions (snd (act toy_torch \<lparr>params = 1, action_var = [0]\<rparr> [0, 0] toy_memory [1 / 2]))) = 2 \<and>
   length (logprobs (snd (act toy_torch \<lparr>params = 1, action_var = [0]\<rparr> [0, 0] toy_memory [1 / 2]))) = 2"
  by (simp add: act_def toy_torch_def Let_def toy_memory_def)

subsection \<open>Construction\<close>

text \<open>
  C8, as the code has it. Construction does not examine the variance. For non-negative
  dimensions, constructing \<^verbatim>\<open>ActorCritic\<close> succeeds for every \<open>action_std\<close> and stores the
  variance \<open>action_std * action_std\<close>, which is never negative and is zero for
  \<open>action_std = 0\<close>, in each of the \<open>action_dim\<close> entries; constructing \<^verbatim>\<open>PPO\<close> then
  succeeds whenever the Adam constructor accepts \<open>lr\<close> and \<open>betas\<close>, with both snapshots
  holding the same parameters.
\<close>

theorem construction_accepts_any_std:
  "(0 \<le> state_dim \<and> 0 \<le> action_dim \<longrightarrow>
      ActorCritic_init state_dim action_dim action_std w =
        Inr \<lparr>params = w, action_var = replicate (nat action_dim) (action_std * action_std)\<rparr> \<and>
      list_all (\<lambda>v. 0 \<le> v) (replicate (nat action_dim) (action_std * action_std))) \<and>
   (0 \<le> state_dim \<and> 0 \<le> action_dim \<and> adam_init T lr0 betas0 = Inr opt \<longrightarrow>
      PPO_init T state_dim action_dim action_std lr0 betas0 gamma0 K eps w w_old =
        Inr \<lparr>lr = lr0, betas = betas0, gamma = gamma0, eps_clip = eps, K_epochs = K,
             policy = \<lparr>params = w, action_var = replicate (nat action_dim) (action_std * action_std)\<rparr>,
             optimizer = opt,
             policy_old = \<lparr>params = w, action_var = replicate (nat action_dim) (action_std * action_std)\<rparr>\<rparr>)"
  by (simp add: ActorCritic_init_def PPO_init_def load_state_dict_def state_dict_def
      list_all_iff)

theorem construction_accepts_any_std_witness:
  "ActorCritic_init 2 1 (1 / 2) (1 :: real) = Inr \<lparr>params = 1, action_var = [1 / 4]\<rparr> \<and>
   PPO_init toy_torch 2 1 (1 / 2) (3 / 10000) (9 / 10, 999 / 1000) (99 / 100) 2 (1 / 5) 1 7 =
     Inr toy_ppo"
proof -
  have a: "adam_init toy_torch (3 / 10000) (9 / 10, 999 / 1000) = Inr 0"
    by (simp add: toy_torch_def)
  have r: "replicate (nat 1) (1 / 2 * (1 / 2) :: real) = [1 / 4]"
    by simp
  show ?thesis
    using construction_accepts_any_std [of 2 1 "1 / 2" "1 :: real" toy_torch "3 / 10000"
        "(9 / 10, 999 / 1000)" 0 "99 / 100" 2 "1 / 5" 7] a
    by (simp add: toy_ppo_def)
qed

text \<open>
  The claim as stated fails: with \<open>action_std = 0\<close> both constructors return an object, whose
  variance is zero.
\<close>

theorem construction_zero_variance_counterexample:
  "ActorCritic_init 2 1 0 (1 :: real) = Inr \<lparr>params = 1, action_var = [0]\<rparr> \<and>
   PPO_init toy_torch 2 1 0 (3 / 10000) (9 / 10, 999 / 1000) (99 / 100) 2 (1 / 5) 1 7 =
     Inr (toy_ppo\<lparr>policy := \<lparr>params = 1, action_var = [0]\<rparr>,
                  policy_old := \<lparr>params = 1, action_var = [0]\<rparr>\<rparr>)"
  by (simp add: ActorCritic_init_def PPO_init_def load_state_dict_def state_dict_def
      toy_torch_def toy_ppo_def)

subsection \<open>Normalised returns\<close>














end
